theory Spec2Isabelle
  imports Complex_Main "HOL-Library.Sublist"
begin

section \<open>The Rigol oscilloscope driver (src/drivers/rigol.py)\<close>

text \<open>
  The driver is a class \<open>Rigol\<close> whose methods format SCPI command strings and hand them
  to a VISA instrument handle. The VISA library is not part of the repository: it is
  modelled as the environment. Every call the driver makes into it is recorded, in order,
  in a trace, and its outcome (an exception or a reply string) is decided by a function
  of the trace so far, the \<open>transport\<close>. A theorem that holds for every transport holds for
  whatever the library and the instrument do.
\<close>

subsection \<open>Python values and string formatting\<close>

text \<open>
  The arguments of the methods are the documented ones: integers, floats and strings.
  The type \<open>'f\<close> stands for Python's floats; \<open>repr\<close> of a float and \<open>float\<close> of a string
  are Python built-ins, taken as parameters (\<open>float_repr\<close>, \<open>float_of_str\<close>) wherever a
  method uses them. Strings are lists of code points below 256.
\<close>

datatype 'f pyval = PyNone | PyInt int | PyFloat 'f | PyStr string

definition digit_char :: "nat \<Rightarrow> char" where
  "digit_char d = ''0123456789'' ! d"

fun str_nat :: "nat \<Rightarrow> string" where
  "str_nat n = (if n < 10 then [digit_char n] else str_nat (n div 10) @ [digit_char (n mod 10)])"

declare str_nat.simps [simp del]

definition str_int :: "int \<Rightarrow> string" where
  "str_int i = (if i < 0 then CHR ''-'' # str_nat (nat (- i)) else str_nat (nat i))"

text \<open>A replacement field \<open>{v}\<close> of an f-string: \<open>format(v, '')\<close>.\<close>

fun py_format :: "('f \<Rightarrow> string) \<Rightarrow> 'f pyval \<Rightarrow> string" where
  "py_format float_repr PyNone = ''None''"
| "py_format float_repr (PyInt i) = str_int i"
| "py_format float_repr (PyFloat x) = float_repr x"
| "py_format float_repr (PyStr s) = s"

text \<open>\<open>str.strip()\<close> without argument removes the characters for which \<open>str.isspace\<close> holds.\<close>

definition py_isspace :: "char \<Rightarrow> bool" where
  "py_isspace c = (let n = (of_char c :: nat) in
     (9 \<le> n \<and> n \<le> 13) \<or> (28 \<le> n \<and> n \<le> 32) \<or> n = 133 \<or> n = 160)"

definition py_strip :: "string \<Rightarrow> string" where
  "py_strip s = rev (dropWhile py_isspace (rev (dropWhile py_isspace s)))"

definition newline :: string where
  "newline = [CHR 0x0A]"

subsection \<open>Exceptions, the transport and the world\<close>

datatype exn = VisaIOError string | ValueError string | AttributeError string

text \<open>
  The calls the driver makes into the VISA library: creating the resource manager,
  opening a resource, assigning the three attributes of the instrument handle, and
  \<open>write\<close>, \<open>query\<close> (a write followed by a read) and \<open>close\<close> on the handle.
\<close>

datatype io =
    NewResourceManager string
  | OpenResource string
  | SetTimeout int
  | SetReadTermination string
  | SetWriteTermination string
  | Write string
  | Query string
  | Close

record world =
  transport :: "io list \<Rightarrow> exn + string"
  trace :: "io list"
  stdout :: string

text \<open>The instrument handle, with the attributes the driver assigns; \<open>None\<close> is "never assigned".\<close>

record resource =
  resource_name :: string
  timeout :: "int option"
  read_termination :: "string option"
  write_termination :: "string option"

text \<open>The driver object. \<open>osci = None\<close> is Python's \<open>None\<close>, the falsy handle.\<close>

record rigol =
  rm :: string
  osci :: "resource option"

subsection \<open>Actions: state passing with exceptions\<close>

text \<open>
  An action takes the state and returns an exception or a value, and the state it leaves:
  an exception does not undo what was done before it.
\<close>

type_synonym ('s, 'a) act = "'s \<Rightarrow> (exn + 'a) \<times> 's"

definition return_act :: "'a \<Rightarrow> ('s, 'a) act" where
  "return_act v s = (Inr v, s)"

definition raise_act :: "exn \<Rightarrow> ('s, 'a) act" where
  "raise_act e s = (Inl e, s)"

definition bind_act :: "('s, 'a) act \<Rightarrow> ('a \<Rightarrow> ('s, 'b) act) \<Rightarrow> ('s, 'b) act" where
  "bind_act m f s = (case m s of (Inl e, s') \<Rightarrow> (Inl e, s') | (Inr v, s') \<Rightarrow> f v s')"

definition then_act :: "('s, 'a) act \<Rightarrow> ('s, 'b) act \<Rightarrow> ('s, 'b) act" where
  "then_act m k = bind_act m (\<lambda>_. k)"

text \<open>One call into the library: it is appended to the trace, and the transport decides.\<close>

definition call :: "io \<Rightarrow> (world, string) act" where
  "call a w = (let h = trace w @ [a] in (transport w h, w\<lparr>trace := h\<rparr>))"

definition py_print :: "string \<Rightarrow> (world, unit) act" where
  "py_print s w = (Inr (), w\<lparr>stdout := stdout w @ s @ newline\<rparr>)"

text \<open>
  A method call on \<open>self.osci\<close>. On \<open>None\<close> the attribute lookup raises \<open>AttributeError\<close>
  before anything reaches the library.
\<close>

definition osci_call :: "io \<Rightarrow> (rigol \<times> world, string) act" where
  "osci_call a = (\<lambda>(self, w).
     case osci self of
       None \<Rightarrow> (Inl (AttributeError ''NoneType''), self, w)
     | Some r \<Rightarrow> (case call a w of (res, w') \<Rightarrow> (res, self, w')))"

definition osci_write :: "string \<Rightarrow> (rigol \<times> world, unit) act" where
  "osci_write cmd = bind_act (osci_call (Write cmd)) (\<lambda>_. return_act ())"

definition osci_query :: "string \<Rightarrow> (rigol \<times> world, string) act" where
  "osci_query cmd = osci_call (Query cmd)"

subsection \<open>The methods\<close>

definition init :: "string \<Rightarrow> (world, rigol) act" where
  "init ip_address =
     bind_act (call (NewResourceManager ''@py'')) (\<lambda>_.
     bind_act (call (OpenResource (''TCPIP::'' @ ip_address @ ''::INSTR''))) (\<lambda>_.
     let r0 = \<lparr>resource_name = ''TCPIP::'' @ ip_address @ ''::INSTR'', timeout = None,
                read_termination = None, write_termination = None\<rparr> in
     bind_act (call (SetTimeout 2000)) (\<lambda>_.
     let r1 = r0\<lparr>timeout := Some 2000\<rparr> in
     bind_act (call (SetReadTermination newline)) (\<lambda>_.
     let r2 = r1\<lparr>read_termination := Some newline\<rparr> in
     bind_act (call (SetWriteTermination newline)) (\<lambda>_.
     let r3 = r2\<lparr>write_termination := Some newline\<rparr> in
     bind_act (call (Query ''*IDN?'')) (\<lambda>idn.
     bind_act (py_print idn) (\<lambda>_.
     return_act \<lparr>rm = ''@py'', osci = Some r3\<rparr>)))))))"

definition configure_channel ::
  "('f \<Rightarrow> string) \<Rightarrow> 'f pyval \<Rightarrow> 'f pyval \<Rightarrow> 'f pyval \<Rightarrow> (rigol \<times> world, unit) act" where
  "configure_channel float_repr channel scale coupling =
     then_act (osci_write ('':CHANnel'' @ py_format float_repr channel @ '':DISPlay ON''))
    (then_act (osci_write ('':CHANnel'' @ py_format float_repr channel @ '':SCALe '' @
                            py_format float_repr scale))
              (osci_write ('':CHANnel'' @ py_format float_repr channel @ '':COUPling '' @
                            py_format float_repr coupling)))"

definition setup_trigger ::
  "('f \<Rightarrow> string) \<Rightarrow> 'f pyval \<Rightarrow> 'f pyval \<Rightarrow> 'f pyval \<Rightarrow> (rigol \<times> world, unit) act" where
  "setup_trigger float_repr source level mode =
     then_act (osci_write ('':TRIG:EDGE:SOURce CHAN'' @ py_format float_repr source))
    (then_act (osci_write ('':TRIG:EDGE:LEV '' @ py_format float_repr level))
              (osci_write ('':TRIG:SWE '' @ py_format float_repr mode)))"

definition get_time_step :: "(string \<Rightarrow> 'f option) \<Rightarrow> (rigol \<times> world, 'f) act" where
  "get_time_step float_of_str =
     bind_act (osci_query '':WAV:XINC?'') (\<lambda>reply.
       case float_of_str reply of
         None \<Rightarrow> raise_act (ValueError reply)
       | Some x \<Rightarrow> return_act x)"

definition set_memory_depth :: "('f \<Rightarrow> string) \<Rightarrow> 'f pyval \<Rightarrow> (rigol \<times> world, unit) act" where
  "set_memory_depth float_repr memory_depth =
     osci_write ('':ACQuire:MDEPth '' @ py_format float_repr memory_depth)"

definition get_memory_depth :: "(rigol \<times> world, string) act" where
  "get_memory_depth = osci_query '':ACQuire:MDEPth?''"

definition acquire_waveform ::
  "('f \<Rightarrow> string) \<Rightarrow> 'f pyval \<Rightarrow> 'f pyval \<Rightarrow> 'f pyval \<Rightarrow> (rigol \<times> world, string) act" where
  "acquire_waveform float_repr channel mode points =
     then_act (osci_write ('':WAV:SOUR CHAN'' @ py_format float_repr channel))
    (then_act (osci_write ('':WAV:MODE '' @ py_format float_repr mode))
    (then_act (osci_write ('':WAV:POIN '' @ py_format float_repr points))
    (then_act (osci_write '':WAV:FORM ASC'')
              (osci_query '':WAV:DATA?''))))"

definition get_trigger_status :: "(rigol \<times> world, string) act" where
  "get_trigger_status = bind_act (osci_query '':TRIG:STAT?'') (\<lambda>reply. return_act (py_strip reply))"

definition close :: "(rigol \<times> world, unit) act" where
  "close = (\<lambda>(self, w).
     case osci self of
       None \<Rightarrow> (Inr (), self, w)
     | Some r \<Rightarrow> bind_act (osci_call Close) (\<lambda>_. return_act ()) (self, w))"

definition set_time_scale :: "('f \<Rightarrow> string) \<Rightarrow> 'f pyval \<Rightarrow> (rigol \<times> world, unit) act" where
  "set_time_scale float_repr time_scale =
     osci_write ('':TIMebase:MAIN:SCALe '' @ py_format float_repr time_scale)"

definition set_time_offset :: "('f \<Rightarrow> string) \<Rightarrow> 'f pyval \<Rightarrow> (rigol \<times> world, unit) act" where
  "set_time_offset float_repr time_offset =
     osci_write ('':TIMebase:MAIN:OFFSet '' @ py_format float_repr time_offset)"

subsection \<open>Calling any method\<close>

text \<open>
  The public methods of the class, as the values a caller can invoke on a constructed
  driver object, and the dispatch to each of them. A method that returns nothing returns
  \<open>None\<close>.
\<close>

datatype 'f method_call =
    M_configure_channel "'f pyval" "'f pyval" "'f pyval"
  | M_setup_trigger "'f pyval" "'f pyval" "'f pyval"
  | M_get_time_step
  | M_set_memory_depth "'f pyval"
  | M_get_memory_depth
  | M_acquire_waveform "'f pyval" "'f pyval" "'f pyval"
  | M_get_trigger_status
  | M_close
  | M_set_time_scale "'f pyval"
  | M_set_time_offset "'f pyval"

definition returning :: "('a \<Rightarrow> 'b) \<Rightarrow> ('s, 'a) act \<Rightarrow> ('s, 'b) act" where
  "returning g m = bind_act m (\<lambda>v. return_act (g v))"

fun invoke ::
  "('f \<Rightarrow> string) \<Rightarrow> (string \<Rightarrow> 'f option) \<Rightarrow> 'f method_call \<Rightarrow> (rigol \<times> world, 'f pyval) act" where
  "invoke float_repr float_of_str (M_configure_channel channel scale coupling) =
     returning (\<lambda>_. PyNone) (configure_channel float_repr channel scale coupling)"
| "invoke float_repr float_of_str (M_setup_trigger source level mode) =
     returning (\<lambda>_. PyNone) (setup_trigger float_repr source level mode)"
| "invoke float_repr float_of_str M_get_time_step =
     returning PyFloat (get_time_step float_of_str)"
| "invoke float_repr float_of_str (M_set_memory_depth memory_depth) =
     returning (\<lambda>_. PyNone) (set_memory_depth float_repr memory_depth)"
| "invoke float_repr float_of_str M_get_memory_depth =
     returning PyStr get_memory_depth"
| "invoke float_repr float_of_str (M_acquire_waveform channel mode points) =
     returning PyStr (acquire_waveform float_repr channel mode points)"
| "invoke float_repr float_of_str M_get_trigger_status =
     returning PyStr get_trigger_status"
| "invoke float_repr float_of_str M_close =
     returning (\<lambda>_. PyNone) close"
| "invoke float_repr float_of_str (M_set_time_scale time_scale) =
     returning (\<lambda>_. PyNone) (set_time_scale float_repr time_scale)"
| "invoke float_repr float_of_str (M_set_time_offset time_offset) =
     returning (\<lambda>_. PyNone) (set_time_offset float_repr time_offset)"

subsection \<open>Observing a run\<close>

text \<open>
  What a method call on the driver \<open>self\<close> in the world \<open>w\<close> gives: the exception or value,
  the driver object and the world afterwards, and the calls it made (what it appended to
  the trace).
\<close>

definition outcome :: "(rigol \<times> world, 'a) act \<Rightarrow> rigol \<Rightarrow> world \<Rightarrow> exn + 'a" where
  "outcome m self w = fst (m (self, w))"

definition self_after :: "(rigol \<times> world, 'a) act \<Rightarrow> rigol \<Rightarrow> world \<Rightarrow> rigol" where
  "self_after m self w = fst (snd (m (self, w)))"

definition world_after :: "(rigol \<times> world, 'a) act \<Rightarrow> rigol \<Rightarrow> world \<Rightarrow> world" where
  "world_after m self w = snd (snd (m (self, w)))"

definition sent :: "world \<Rightarrow> world \<Rightarrow> io list" where
  "sent w w' = drop (length (trace w)) (trace w')"

definition calls_of :: "(rigol \<times> world, 'a) act \<Rightarrow> rigol \<Rightarrow> world \<Rightarrow> io list" where
  "calls_of m self w = sent w (world_after m self w)"

text \<open>
  Counting the exchanges in a list of calls: a \<open>write\<close> sends one formatted command;
  a \<open>query\<close> sends one formatted command and reads one reply.
\<close>

fun is_write :: "io \<Rightarrow> bool" where
  "is_write (Write cmd) = True"
| "is_write a = False"

fun is_query :: "io \<Rightarrow> bool" where
  "is_query (Query cmd) = True"
| "is_query a = False"

fun is_set_attribute :: "io \<Rightarrow> bool" where
  "is_set_attribute (SetTimeout t) = True"
| "is_set_attribute (SetReadTermination s) = True"
| "is_set_attribute (SetWriteTermination s) = True"
| "is_set_attribute a = False"

definition writes_in :: "io list \<Rightarrow> nat" where
  "writes_in ios = length (filter is_write ios)"

definition queries_in :: "io list \<Rightarrow> nat" where
  "queries_in ios = length (filter is_query ios)"

text \<open>
  The calls each method makes when none of them raises, written out per method, to be
  compared with what the methods above do.
\<close>

fun expected_calls :: "('f \<Rightarrow> string) \<Rightarrow> 'f method_call \<Rightarrow> io list" where
  "expected_calls float_repr (M_configure_channel channel scale coupling) =
     [Write ('':CHANnel'' @ py_format float_repr channel @ '':DISPlay ON''),
      Write ('':CHANnel'' @ py_format float_repr channel @ '':SCALe '' @ py_format float_repr scale),
      Write ('':CHANnel'' @ py_format float_repr channel @ '':COUPling '' @
             py_format float_repr coupling)]"
| "expected_calls float_repr (M_setup_trigger source level mode) =
     [Write ('':TRIG:EDGE:SOURce CHAN'' @ py_format float_repr source),
      Write ('':TRIG:EDGE:LEV '' @ py_format float_repr level),
      Write ('':TRIG:SWE '' @ py_format float_repr mode)]"
| "expected_calls float_repr M_get_time_step = [Query '':WAV:XINC?'']"
| "expected_calls float_repr (M_set_memory_depth memory_depth) =
     [Write ('':ACQuire:MDEPth '' @ py_format float_repr memory_depth)]"
| "expected_calls float_repr M_get_memory_depth = [Query '':ACQuire:MDEPth?'']"
| "expected_calls float_repr (M_acquire_waveform channel mode points) =
     [Write ('':WAV:SOUR CHAN'' @ py_format float_repr channel),
      Write ('':WAV:MODE '' @ py_format float_repr mode),
      Write ('':WAV:POIN '' @ py_format float_repr points),
      Write '':WAV:FORM ASC'',
      Query '':WAV:DATA?'']"
| "expected_calls float_repr M_get_trigger_status = [Query '':TRIG:STAT?'']"
| "expected_calls float_repr M_close = [Close]"
| "expected_calls float_repr (M_set_time_scale time_scale) =
     [Write ('':TIMebase:MAIN:SCALe '' @ py_format float_repr time_scale)]"
| "expected_calls float_repr (M_set_time_offset time_offset) =
     [Write ('':TIMebase:MAIN:OFFSet '' @ py_format float_repr time_offset)]"

text \<open>The number of writes and of queries of each method, when no call raises.\<close>

fun exchanges :: "'f method_call \<Rightarrow> nat \<times> nat" where
  "exchanges (M_configure_channel channel scale coupling) = (3, 0)"
| "exchanges (M_setup_trigger source level mode) = (3, 0)"
| "exchanges M_get_time_step = (0, 1)"
| "exchanges (M_set_memory_depth memory_depth) = (1, 0)"
| "exchanges M_get_memory_depth = (0, 1)"
| "exchanges (M_acquire_waveform channel mode points) = (4, 1)"
| "exchanges M_get_trigger_status = (0, 1)"
| "exchanges M_close = (0, 0)"
| "exchanges (M_set_time_scale time_scale) = (1, 0)"
| "exchanges (M_set_time_offset time_offset) = (1, 0)"

text \<open>
  Making the calls \<open>ios\<close> in turn after the history \<open>h\<close>, and stopping at the first one on
  which the transport \<open>t\<close> raises: the calls made.
\<close>

fun performed :: "(io list \<Rightarrow> exn + string) \<Rightarrow> io list \<Rightarrow> io list \<Rightarrow> io list" where
  "performed t h [] = []"
| "performed t h (a # as) = (if isl (t (h @ [a])) then [a] else a # performed t (h @ [a]) as)"

subsection \<open>Example objects\<close>

text \<open>
  Concrete inputs for the examples below. Floats are written as the rationals they
  denote; the two tables agree with Python's \<open>repr\<close> and \<open>float\<close> on the entries they
  list (\<open>repr(0.5)\<close> is \<open>'0.5'\<close>, \<open>float('5.000000e-01')\<close> is \<open>0.5\<close>, \<open>float('abc')\<close> raises
  \<open>ValueError\<close>), which are the only ones the examples use.
\<close>

definition example_float_repr :: "rat \<Rightarrow> string" where
  "example_float_repr x = (if x = 1 / 2 then ''0.5'' else ''?'')"

definition example_float_of_str :: "string \<Rightarrow> rat option" where
  "example_float_of_str s = (if s = ''5.000000e-01'' then Some (1 / 2) else None)"

definition example_resource :: resource where
  "example_resource =
     \<lparr>resource_name = ''TCPIP::192.168.0.10::INSTR'', timeout = Some 2000,
      read_termination = Some newline, write_termination = Some newline\<rparr>"

definition example_driver :: rigol where
  "example_driver = \<lparr>rm = ''@py'', osci = Some example_resource\<rparr>"

text \<open>A world whose transport accepts every call and answers \<open>reply\<close>.\<close>

definition replying :: "string \<Rightarrow> world" where
  "replying reply = \<lparr>transport = (\<lambda>h. Inr reply), trace = [], stdout = []\<rparr>"

text \<open>A world whose transport raises \<open>e\<close> on the call \<open>a\<close> and answers \<open>reply\<close> otherwise.\<close>

definition failing_on :: "io \<Rightarrow> exn \<Rightarrow> string \<Rightarrow> world" where
  "failing_on a e reply =
     \<lparr>transport = (\<lambda>h. if h \<noteq> [] \<and> last h = a then Inl e else Inr reply),
      trace = [], stdout = []\<rparr>"

section \<open>Properties\<close>

subsection \<open>Shared lemmas\<close>

lemma osci_call_Some:
  "osci self = Some r \<Longrightarrow>
   osci_call a (self, w) = (transport w (trace w @ [a]), self, w\<lparr>trace := trace w @ [a]\<rparr>)"
  by (simp add: osci_call_def call_def Let_def)

lemma osci_call_None:
  "osci self = None \<Longrightarrow> osci_call a (self, w) = (Inl (AttributeError ''NoneType''), self, w)"
  by (simp add: osci_call_def)

lemmas method_defs =
  configure_channel_def setup_trigger_def get_time_step_def set_memory_depth_def
  get_memory_depth_def acquire_waveform_def get_trigger_status_def close_def
  set_time_scale_def set_time_offset_def osci_write_def osci_query_def returning_def

lemmas act_defs = bind_act_def then_act_def return_act_def raise_act_def

lemmas observe_defs = outcome_def self_after_def world_after_def calls_of_def sent_def

lemmas example_defs =
  example_driver_def example_resource_def replying_def failing_on_def
  example_float_repr_def example_float_of_str_def

lemmas str_defs = str_int_def str_nat.simps digit_char_def

lemma invoke_self_unchanged:
  "self_after (invoke fr fp m) self w = self"
proof (cases "osci self")
  case None
  then show ?thesis
    by (cases m)
      (auto simp: observe_defs method_defs act_defs osci_call_None split: sum.splits option.splits)
next
  case (Some r)
  then show ?thesis
    by (cases m)
      (auto simp: observe_defs method_defs act_defs osci_call_Some split: sum.splits option.splits)
qed

lemma invoke_calls_prefix:
  assumes "osci self = Some r"
  shows "prefix (calls_of (invoke fr fp m) self w) (expected_calls fr m)"
  using assms
  by (cases m)
    (auto simp: observe_defs method_defs act_defs osci_call_Some split: sum.splits option.splits)

lemma invoke_calls_all:
  assumes "osci self = Some r" and "\<forall>h. \<not> isl (transport w h)"
  shows "calls_of (invoke fr fp m) self w = expected_calls fr m"
proof -
  have ok: "\<And>h e. transport w h \<noteq> Inl e"
    using assms(2) by (metis isl_def)
  show ?thesis
    using assms(1)
    by (cases m)
      (auto simp: observe_defs method_defs act_defs osci_call_Some ok
            split: sum.splits option.splits)
qed

text \<open>Stopping at the first call that raises.\<close>

lemma performed_prefix: "prefix (performed t h ios) ios"
  by (induction ios arbitrary: h) auto

lemma performed_short:
  "performed t h ios \<noteq> ios \<Longrightarrow>
   performed t h ios \<noteq> [] \<and> isl (t (h @ performed t h ios))"
proof (induction ios arbitrary: h)
  case Nil
  then show ?case by simp
next
  case (Cons a as)
  show ?case
  proof (cases "isl (t (h @ [a]))")
    case True
    then show ?thesis by simp
  next
    case False
    with Cons.prems have "performed t (h @ [a]) as \<noteq> as"
      by simp
    from Cons.IH [OF this] False show ?thesis
      by simp
  qed
qed

lemma performed_Inl:
  "t (h @ [a]) = Inl e \<Longrightarrow> performed t h (a # as) = [a]"
  by simp

lemma performed_Inr:
  "t (h @ [a]) = Inr v \<Longrightarrow> performed t h (a # as) = a # performed t (h @ [a]) as"
  by simp

lemma performed_proper_prefix:
  "prefix p (performed t h ios) \<Longrightarrow> p \<noteq> [] \<Longrightarrow> p \<noteq> performed t h ios \<Longrightarrow>
   \<not> isl (t (h @ p))"
proof (induction ios arbitrary: h p)
  case Nil
  then show ?case by simp
next
  case (Cons a as)
  show ?case
  proof (cases "isl (t (h @ [a]))")
    case True
    with Cons.prems show ?thesis
      by (auto simp: prefix_Cons)
  next
    case False
    with Cons.prems obtain q where p: "p = a # q" and q: "prefix q (performed t (h @ [a]) as)"
      and ne: "q \<noteq> performed t (h @ [a]) as"
      by (auto simp: prefix_Cons)
    show ?thesis
    proof (cases "q = []")
      case True
      with p False show ?thesis by simp
    next
      case nonempty: False
      from Cons.IH [OF q nonempty ne] show ?thesis
        by (simp add: p)
    qed
  qed
qed

lemma invoke_calls_performed:
  assumes "osci self = Some r"
  shows "calls_of (invoke fr fp m) self w = performed (transport w) (trace w) (expected_calls fr m)"
proof -
  show ?thesis
    using assms
    by (cases m)
      (auto simp: observe_defs method_defs act_defs osci_call_Some performed_Inl performed_Inr
            simp del: performed.simps(2) split: sum.splits option.splits)
qed

lemma invoke_trace:
  "trace (world_after (invoke fr fp m) self w) = trace w @ calls_of (invoke fr fp m) self w"
proof (cases "osci self")
  case None
  then show ?thesis
    by (cases m)
      (auto simp: observe_defs method_defs act_defs osci_call_None split: sum.splits option.splits)
next
  case (Some r)
  then show ?thesis
    by (cases m)
      (auto simp: observe_defs method_defs act_defs osci_call_Some split: sum.splits option.splits)
qed

lemma invoke_last_raise:
  assumes "osci self = Some r"
    and "calls_of (invoke fr fp m) self w \<noteq> []"
    and "transport w (trace (world_after (invoke fr fp m) self w)) = Inl e"
  shows "outcome (invoke fr fp m) self w = Inl e"
  using assms
  by (cases m)
    (auto simp: observe_defs method_defs act_defs osci_call_Some split: sum.splits option.splits)

lemma invoke_any_raise:
  assumes "osci self = Some r"
    and "prefix p (calls_of (invoke fr fp m) self w)" and "p \<noteq> []"
    and "transport w (trace w @ p) = Inl e"
  shows "outcome (invoke fr fp m) self w = Inl e"
proof -
  have calls: "calls_of (invoke fr fp m) self w =
      performed (transport w) (trace w) (expected_calls fr m)"
    using assms(1) by (rule invoke_calls_performed)
  have "p = calls_of (invoke fr fp m) self w"
  proof (rule ccontr)
    assume neq: "p \<noteq> calls_of (invoke fr fp m) self w"
    have "\<not> isl (transport w (trace w @ p))"
      using assms(2) neq unfolding calls
      by (rule performed_proper_prefix [OF _ assms(3)])
    with assms(4) show False by simp
  qed
  then show ?thesis
    using invoke_last_raise [OF assms(1), of fr fp m w e] assms(3,4) invoke_trace [of fr fp m self w]
    by simp
qed

text \<open>The constructor: the calls it makes, what it returns, and when it fails.\<close>

lemmas init_defs = init_def call_def py_print_def Let_def

lemma init_calls_prefix:
  "prefix (sent w (snd (init ip w)))
     [NewResourceManager ''@py'', OpenResource (''TCPIP::'' @ ip @ ''::INSTR''), SetTimeout 2000,
      SetReadTermination newline, SetWriteTermination newline, Query ''*IDN?'']"
  by (simp add: init_defs act_defs sent_def split: sum.splits)

lemma init_success:
  assumes "fst (init ip w) = Inr d"
  shows "sent w (snd (init ip w)) =
           [NewResourceManager ''@py'', OpenResource (''TCPIP::'' @ ip @ ''::INSTR''), SetTimeout 2000,
            SetReadTermination newline, SetWriteTermination newline, Query ''*IDN?'']"
    and "d = \<lparr>rm = ''@py'', osci = Some \<lparr>resource_name = ''TCPIP::'' @ ip @ ''::INSTR'',
               timeout = Some 2000, read_termination = Some newline,
               write_termination = Some newline\<rparr>\<rparr>"
    and "\<exists>reply. transport w (trace (snd (init ip w))) = Inr reply \<and>
           stdout (snd (init ip w)) = stdout w @ reply @ newline"
  using assms
  by (auto simp: init_defs act_defs sent_def split: sum.splits)

lemma init_failure:
  "fst (init ip w) = Inl e \<longleftrightarrow> transport w (trace (snd (init ip w))) = Inl e"
  by (auto simp: init_defs act_defs split: sum.splits)


lemma init_trace:
  "trace (snd (init ip w)) = trace w @ sent w (snd (init ip w))"
  by (auto simp: init_defs act_defs sent_def split: sum.splits)

lemma init_transport:
  "transport (snd (init ip w)) = transport w"
  by (auto simp: init_defs act_defs sent_def split: sum.splits)

lemma init_calls_performed:
  "sent w (snd (init ip w)) = performed (transport w) (trace w)
     [NewResourceManager ''@py'', OpenResource (''TCPIP::'' @ ip @ ''::INSTR''), SetTimeout 2000,
      SetReadTermination newline, SetWriteTermination newline, Query ''*IDN?'']"
  by (auto simp: init_defs act_defs sent_def performed_Inl performed_Inr
           simp del: performed.simps(2) split: sum.splits)

lemma init_any_raise:
  assumes "prefix p (sent w (snd (init ip w)))" and "p \<noteq> []"
    and "transport w (trace w @ p) = Inl e"
  shows "fst (init ip w) = Inl e"
proof -
  have "p = sent w (snd (init ip w))"
  proof (rule ccontr)
    assume neq: "p \<noteq> sent w (snd (init ip w))"
    have "\<not> isl (transport w (trace w @ p))"
      using assms(1) neq unfolding init_calls_performed
      by (rule performed_proper_prefix [OF _ assms(2)])
    with assms(3) show False by simp
  qed
  then have "transport w (trace (snd (init ip w))) = Inl e"
    using assms(3) init_trace [of ip w] by simp
  then show ?thesis
    by (simp add: init_failure)
qed

lemma example_init:
  "init ''192.168.0.10'' (replying ''RIGOL'') =
     (Inr example_driver,
      \<lparr>transport = (\<lambda>h. Inr ''RIGOL''),
       trace = [NewResourceManager ''@py'', OpenResource ''TCPIP::192.168.0.10::INSTR'',
                SetTimeout 2000, SetReadTermination newline, SetWriteTermination newline,
                Query ''*IDN?''],
       stdout = ''RIGOL'' @ newline\<rparr>)"
  by (simp add: init_defs act_defs example_defs)

text \<open>What \<open>strip\<close> removes, and what it leaves at both ends.\<close>

lemma py_strip_decomposition:
  "\<exists>a b. s = a @ py_strip s @ b \<and> (\<forall>c\<in>set (a @ b). py_isspace c)"
proof -
  define t where "t = dropWhile py_isspace s"
  have s: "s = takeWhile py_isspace s @ t"
    by (simp add: t_def)
  have "t = rev (dropWhile py_isspace (rev t)) @ rev (takeWhile py_isspace (rev t))"
    by (metis rev_append rev_rev_ident takeWhile_dropWhile_id)
  moreover have "py_strip s = rev (dropWhile py_isspace (rev t))"
    by (simp add: py_strip_def t_def)
  ultimately have t: "t = py_strip s @ rev (takeWhile py_isspace (rev t))"
    by simp
  have a: "\<forall>c\<in>set (takeWhile py_isspace s). py_isspace c"
    by (auto dest: set_takeWhileD)
  have b: "\<forall>c\<in>set (rev (takeWhile py_isspace (rev t))). py_isspace c"
    by (auto dest: set_takeWhileD)
  have "s = takeWhile py_isspace s @ py_strip s @ rev (takeWhile py_isspace (rev t))"
    using s t by simp
  with a b show ?thesis
    by (metis Un_iff set_append)
qed

lemma py_strip_ends:
  assumes "py_strip s \<noteq> []"
  shows "\<not> py_isspace (hd (py_strip s)) \<and> \<not> py_isspace (last (py_strip s))"
proof -
  define t where "t = dropWhile py_isspace s"
  define u where "u = dropWhile py_isspace (rev t)"
  have strip: "py_strip s = rev u"
    by (simp add: py_strip_def t_def u_def)
  with assms have u: "u \<noteq> []" by simp
  then have "\<not> py_isspace (hd u)"
    unfolding u_def by (rule hd_dropWhile)
  then have last: "\<not> py_isspace (last (py_strip s))"
    using u by (simp add: strip last_rev)
  have "rev t = takeWhile py_isspace (rev t) @ u"
    by (simp add: u_def)
  then have "rev (rev t) = rev (takeWhile py_isspace (rev t) @ u)"
    by simp
  then have t: "t = rev u @ rev (takeWhile py_isspace (rev t))"
    by simp
  then have "t \<noteq> []" using u by auto
  then have "\<not> py_isspace (hd t)"
    unfolding t_def by (rule hd_dropWhile)
  moreover have "hd t = hd (rev u)"
    using t u by (metis hd_append2 rev_is_Nil_conv)
  ultimately show ?thesis
    using last by (simp add: strip)
qed

subsection \<open>C1: how many exchanges a method makes\<close>

text \<open>
  C1 as stated: every method performs a single formatted write and, for a query-type
  operation, a single read. It fails: on a transport that accepts every call,
  \<open>configure_channel(1, 0.5, "DC")\<close> makes three writes.
\<close>

theorem method_exchanges_counterexample:
  "writes_in (calls_of (configure_channel example_float_repr (PyInt 1) (PyFloat (1 / 2)) (PyStr ''DC''))
      example_driver (replying ''OK'')) = 3 \<and>
   queries_in (calls_of (configure_channel example_float_repr (PyInt 1) (PyFloat (1 / 2)) (PyStr ''DC''))
      example_driver (replying ''OK'')) = 0"
  by (simp add: observe_defs method_defs act_defs example_defs osci_call_def call_def
      writes_in_def queries_in_def str_defs)

text \<open>
  C1, amended: on a constructed driver (its handle is not \<open>None\<close>) every method makes a
  fixed sequence of calls on the instrument handle, stopping at the first one that raises.
  The calls made are \<open>expected_calls\<close> cut after the first call that raises: an initial
  segment of \<open>expected_calls\<close>; when it falls short, its last call raised; no call before
  the last one raised; and when the transport raises nothing, all of \<open>expected_calls\<close>.
  That sequence is one write for \<open>set_memory_depth\<close>, \<open>set_time_scale\<close> and
  \<open>set_time_offset\<close>; one query for \<open>get_time_step\<close>, \<open>get_memory_depth\<close> and
  \<open>get_trigger_status\<close>; three writes for \<open>configure_channel\<close> and \<open>setup_trigger\<close>; four
  writes and then one query for \<open>acquire_waveform\<close>; no write and no query for \<open>close\<close>.
\<close>

theorem method_exchanges:
  assumes "osci self = Some r"
    and "calls = calls_of (invoke float_repr float_of_str m) self w"
  shows "calls = performed (transport w) (trace w) (expected_calls float_repr m) \<and>
         prefix calls (expected_calls float_repr m) \<and>
         (calls \<noteq> expected_calls float_repr m \<longrightarrow>
            calls \<noteq> [] \<and> isl (transport w (trace w @ calls))) \<and>
         (\<forall>p. prefix p calls \<and> p \<noteq> [] \<and> p \<noteq> calls \<longrightarrow> \<not> isl (transport w (trace w @ p))) \<and>
         ((\<forall>h. \<not> isl (transport w h)) \<longrightarrow>
            calls = expected_calls float_repr m \<and>
            (writes_in calls, queries_in calls) = exchanges m)"
proof (intro conjI impI allI)
  show eq: "calls = performed (transport w) (trace w) (expected_calls float_repr m)"
    unfolding assms(2) using assms(1) by (rule invoke_calls_performed)
  show "prefix calls (expected_calls float_repr m)"
    unfolding eq by (rule performed_prefix)
  show "calls \<noteq> []" and "isl (transport w (trace w @ calls))"
    if "calls \<noteq> expected_calls float_repr m"
    using that performed_short [of "transport w" "trace w" "expected_calls float_repr m"]
    unfolding eq by blast+
  show "\<not> isl (transport w (trace w @ p))" if "prefix p calls \<and> p \<noteq> [] \<and> p \<noteq> calls" for p
    using that performed_proper_prefix [of p "transport w" "trace w" "expected_calls float_repr m"]
    unfolding eq by blast
  show all: "calls = expected_calls float_repr m" if "\<forall>h. \<not> isl (transport w h)"
    unfolding assms(2) using assms(1) that by (rule invoke_calls_all)
  show "(writes_in calls, queries_in calls) = exchanges m" if "\<forall>h. \<not> isl (transport w h)"
    unfolding all [OF that] by (cases m) (simp_all add: writes_in_def queries_in_def)
qed

text \<open>
  C1, two instances: \<open>acquire_waveform(2, "NORM", 1200)\<close> makes four writes and one query
  on a transport that accepts every call, and stops after its second write when that
  write times out.
\<close>

theorem method_exchanges_witness:
  "calls_of (invoke example_float_repr example_float_of_str
       (M_acquire_waveform (PyInt 2) (PyStr ''NORM'') (PyInt 1200))) example_driver (replying ''1.0,2.0'') =
     [Write '':WAV:SOUR CHAN2'', Write '':WAV:MODE NORM'', Write '':WAV:POIN 1200'',
      Write '':WAV:FORM ASC'', Query '':WAV:DATA?''] \<and>
   writes_in (calls_of (invoke example_float_repr example_float_of_str
       (M_acquire_waveform (PyInt 2) (PyStr ''NORM'') (PyInt 1200))) example_driver (replying ''1.0,2.0'')) = 4 \<and>
   queries_in (calls_of (invoke example_float_repr example_float_of_str
       (M_acquire_waveform (PyInt 2) (PyStr ''NORM'') (PyInt 1200))) example_driver (replying ''1.0,2.0'')) = 1 \<and>
   calls_of (invoke example_float_repr example_float_of_str
       (M_acquire_waveform (PyInt 2) (PyStr ''NORM'') (PyInt 1200))) example_driver
       (failing_on (Write '':WAV:MODE NORM'') (VisaIOError ''timeout'') ''OK'') =
     [Write '':WAV:SOUR CHAN2'', Write '':WAV:MODE NORM'']"
  using method_exchanges [OF _ refl, of example_driver example_resource example_float_repr
      example_float_of_str "M_acquire_waveform (PyInt 2) (PyStr ''NORM'') (PyInt 1200)"
      "replying ''1.0,2.0''"]
    method_exchanges [OF _ refl, of example_driver example_resource example_float_repr
      example_float_of_str "M_acquire_waveform (PyInt 2) (PyStr ''NORM'') (PyInt 1200)"
      "failing_on (Write '':WAV:MODE NORM'') (VisaIOError ''timeout'') ''OK''"]
  by (simp add: example_defs str_defs writes_in_def queries_in_def)

subsection \<open>C2: the commands of configure_channel\<close>

text \<open>
  C2: for every channel \<open>c\<close>, scale \<open>s\<close> and coupling \<open>m\<close>, \<open>configure_channel(c, s, m)\<close>
  emits \<open>:CHANnel{c}:SCALe {s}\<close> and \<open>:CHANnel{c}:COUPling {m}\<close> (after \<open>:CHANnel{c}:DISPlay ON\<close>),
  provided the transport accepts the writes that precede them; for channel 1, a scale
  whose \<open>repr\<close> is \<open>0.5\<close> and coupling \<open>"DC"\<close> these are \<open>:CHANnel1:SCALe 0.5\<close> and
  \<open>:CHANnel1:COUPling DC\<close>.
\<close>

theorem configure_channel_emits:
  assumes "osci self = Some r"
    and "transport w (trace w @
           [Write ('':CHANnel'' @ py_format float_repr c @ '':DISPlay ON'')]) = Inr a1"
    and "transport w (trace w @
           [Write ('':CHANnel'' @ py_format float_repr c @ '':DISPlay ON''),
            Write ('':CHANnel'' @ py_format float_repr c @ '':SCALe '' @ py_format float_repr s)]) = Inr a2"
  shows "calls_of (configure_channel float_repr c s m) self w =
           [Write ('':CHANnel'' @ py_format float_repr c @ '':DISPlay ON''),
            Write ('':CHANnel'' @ py_format float_repr c @ '':SCALe '' @ py_format float_repr s),
            Write ('':CHANnel'' @ py_format float_repr c @ '':COUPling '' @ py_format float_repr m)] \<and>
         (c = PyInt 1 \<and> s = PyFloat x \<and> float_repr x = ''0.5'' \<and> m = PyStr ''DC'' \<longrightarrow>
          calls_of (configure_channel float_repr c s m) self w =
            [Write '':CHANnel1:DISPlay ON'', Write '':CHANnel1:SCALe 0.5'',
             Write '':CHANnel1:COUPling DC''])"
proof -
  have calls: "calls_of (configure_channel float_repr c s m) self w =
           [Write ('':CHANnel'' @ py_format float_repr c @ '':DISPlay ON''),
            Write ('':CHANnel'' @ py_format float_repr c @ '':SCALe '' @ py_format float_repr s),
            Write ('':CHANnel'' @ py_format float_repr c @ '':COUPling '' @ py_format float_repr m)]"
    using assms
    by (simp add: observe_defs method_defs act_defs osci_call_Some split: sum.splits)
  show ?thesis
    unfolding calls by (simp add: str_defs)
qed

text \<open>C2, the instance of the spec: \<open>configure_channel(1, 0.5, "DC")\<close>.\<close>

theorem configure_channel_emits_witness:
  "calls_of (configure_channel example_float_repr (PyInt 1) (PyFloat (1 / 2)) (PyStr ''DC''))
      example_driver (replying ''OK'') =
     [Write '':CHANnel1:DISPlay ON'', Write '':CHANnel1:SCALe 0.5'', Write '':CHANnel1:COUPling DC'']"
  using configure_channel_emits [of example_driver example_resource "replying ''OK''"
      example_float_repr "PyInt 1" "''OK''" "PyFloat (1 / 2)" "''OK''" "PyStr ''DC''" "1 / 2"]
  by (simp add: example_defs str_defs)

subsection \<open>C6: get_time_step\<close>

text \<open>
  C6: \<open>get_time_step\<close> makes the single query \<open>:WAV:XINC?\<close>; it returns the reply parsed
  as a float, raises \<open>ValueError\<close> when the reply is not a float literal, and passes on
  the exception of the query when the query raises.
\<close>

theorem get_time_step_parses_reply:
  assumes "osci self = Some r"
  shows "calls_of (get_time_step float_of_str) self w = [Query '':WAV:XINC?''] \<and>
         (\<forall>reply x. transport w (trace w @ [Query '':WAV:XINC?'']) = Inr reply \<and>
                    float_of_str reply = Some x \<longrightarrow>
                    outcome (get_time_step float_of_str) self w = Inr x) \<and>
         (\<forall>reply. transport w (trace w @ [Query '':WAV:XINC?'']) = Inr reply \<and>
                  float_of_str reply = None \<longrightarrow>
                  outcome (get_time_step float_of_str) self w = Inl (ValueError reply)) \<and>
         (\<forall>e. transport w (trace w @ [Query '':WAV:XINC?'']) = Inl e \<longrightarrow>
              outcome (get_time_step float_of_str) self w = Inl e)"
  using assms
  by (simp add: observe_defs method_defs act_defs osci_call_Some split: sum.splits option.splits)

text \<open>C6, two instances: the reply \<open>5.000000e-01\<close> gives 0.5, the reply \<open>abc\<close> raises.\<close>

theorem get_time_step_parses_reply_witness:
  "calls_of (get_time_step example_float_of_str) example_driver (replying ''5.000000e-01'') =
     [Query '':WAV:XINC?''] \<and>
   outcome (get_time_step example_float_of_str) example_driver (replying ''5.000000e-01'') = Inr (1 / 2) \<and>
   outcome (get_time_step example_float_of_str) example_driver (replying ''abc'') =
     Inl (ValueError ''abc'')"
  using get_time_step_parses_reply [of example_driver example_resource example_float_of_str
      "replying ''5.000000e-01''"]
    get_time_step_parses_reply [of example_driver example_resource example_float_of_str
      "replying ''abc''"]
  by (simp add: example_defs)

subsection \<open>C7: the sequence of acquire_waveform\<close>



subsection \<open>C10: close\<close>

text \<open>
  C10: \<open>close()\<close> calls the transport's close on the instrument handle when the handle is
  truthy and makes no call otherwise; it makes no other call, so none on the resource
  manager, and leaves every field of the driver object as it was.
\<close>

theorem close_only_truthy_handle:
  "self_after close self w = self \<and>
   calls_of close self w = (case osci self of None \<Rightarrow> [] | Some r \<Rightarrow> [Close]) \<and>
   outcome close self w =
     (case osci self of
        None \<Rightarrow> Inr ()
      | Some r \<Rightarrow> (case transport w (trace w @ [Close]) of Inl e \<Rightarrow> Inl e | Inr reply \<Rightarrow> Inr ())) \<and>
   world_after close self w =
     (case osci self of None \<Rightarrow> w | Some r \<Rightarrow> w\<lparr>trace := trace w @ [Close]\<rparr>)"
  by (cases "osci self")
    (auto simp: observe_defs method_defs act_defs osci_call_Some split: sum.splits)

text \<open>C10, two instances: a driver with a handle, and one whose handle is \<open>None\<close>.\<close>

theorem close_only_truthy_handle_witness:
  "self_after close example_driver (replying ''OK'') = example_driver \<and>
   calls_of close example_driver (replying ''OK'') = [Close] \<and>
   calls_of close (example_driver\<lparr>osci := None\<rparr>) (replying ''OK'') = [] \<and>
   outcome close (example_driver\<lparr>osci := None\<rparr>) (replying ''OK'') = Inr () \<and>
   world_after close (example_driver\<lparr>osci := None\<rparr>) (replying ''OK'') = replying ''OK''"
  using close_only_truthy_handle [of example_driver "replying ''OK''"]
    close_only_truthy_handle [of "example_driver\<lparr>osci := None\<rparr>" "replying ''OK''"]
  by (simp add: example_defs)

subsection \<open>C3: the SCPI strings named by the spec\<close>



subsection \<open>C4: where failures come from\<close>

text \<open>
  C4 as stated: every failure of a driver method originates from the transport library.
  It fails: when the transport answers \<open>:WAV:XINC?\<close> with \<open>abc\<close> and raises nothing,
  \<open>get_time_step\<close> raises the \<open>ValueError\<close> of the float conversion.
\<close>

theorem transport_failures_only_counterexample:
  "outcome (get_time_step example_float_of_str) example_driver (replying ''abc'') =
     Inl (ValueError ''abc'') \<and>
   calls_of (get_time_step example_float_of_str) example_driver (replying ''abc'') =
     [Query '':WAV:XINC?''] \<and>
   transport (replying ''abc'') [Query '':WAV:XINC?''] = Inr ''abc''"
  by (simp add: observe_defs method_defs act_defs example_defs osci_call_def call_def)

text \<open>
  C4, amended: no driver method catches, classifies or transforms an exception. Whenever
  a call that a method makes raises \<open>e\<close>, be it the first call or a later one, the method
  raises \<open>e\<close> and that call is the last one it made; the same holds of the constructor. On
  a constructed driver (its handle is not \<open>None\<close>) every failure of a method is the exception
  of its last call to the transport, except the \<open>ValueError\<close> that \<open>get_time_step\<close> raises
  when the reply is not a float literal; every failure of the constructor is the exception
  of its last call.
\<close>

theorem exceptions_propagate:
  assumes "osci self = Some r"
    and "res = outcome (invoke float_repr float_of_str m) self w"
    and "w' = world_after (invoke float_repr float_of_str m) self w"
    and "calls = calls_of (invoke float_repr float_of_str m) self w"
  shows "(\<forall>p e. prefix p calls \<and> p \<noteq> [] \<and> transport w (trace w @ p) = Inl e \<longrightarrow>
              res = Inl e \<and> p = calls) \<and>
         (\<forall>p e. prefix p (sent w0 (snd (init ip_address w0))) \<and> p \<noteq> [] \<and>
                transport w0 (trace w0 @ p) = Inl e \<longrightarrow>
              fst (init ip_address w0) = Inl e \<and> p = sent w0 (snd (init ip_address w0))) \<and>
         (\<forall>e. calls \<noteq> [] \<and> transport w (trace w') = Inl e \<longrightarrow> res = Inl e) \<and>
         (\<forall>e. res = Inl e \<longrightarrow>
              (calls \<noteq> [] \<and> transport w (trace w') = Inl e) \<or>
              (m = M_get_time_step \<and>
               (\<exists>reply. transport w (trace w') = Inr reply \<and> float_of_str reply = None \<and>
                         e = ValueError reply))) \<and>
         (\<forall>e. fst (init ip_address w0) = Inl e \<longleftrightarrow>
              transport w0 (trace (snd (init ip_address w0))) = Inl e)"
proof (intro conjI allI impI)
  fix p e
  assume a: "prefix p calls \<and> p \<noteq> [] \<and> transport w (trace w @ p) = Inl e"
  then show "res = Inl e"
    unfolding assms(2,4) using invoke_any_raise [OF assms(1)] by blast
  have eq: "calls = performed (transport w) (trace w) (expected_calls float_repr m)"
    unfolding assms(4) using assms(1) by (rule invoke_calls_performed)
  show "p = calls"
  proof (rule ccontr)
    assume "p \<noteq> calls"
    then have "\<not> isl (transport w (trace w @ p))"
      using a performed_proper_prefix [of p "transport w" "trace w" "expected_calls float_repr m"]
      unfolding eq by blast
    with a show False by simp
  qed
next
  fix p e
  assume a: "prefix p (sent w0 (snd (init ip_address w0))) \<and> p \<noteq> [] \<and>
                transport w0 (trace w0 @ p) = Inl e"
  then show "fst (init ip_address w0) = Inl e"
    using init_any_raise by blast
  show "p = sent w0 (snd (init ip_address w0))"
  proof (rule ccontr)
    assume "p \<noteq> sent w0 (snd (init ip_address w0))"
    then have "\<not> isl (transport w0 (trace w0 @ p))"
      using a performed_proper_prefix [of p "transport w0" "trace w0"]
      unfolding init_calls_performed by blast
    with a show False by simp
  qed
next
  fix e
  assume "calls \<noteq> [] \<and> transport w (trace w') = Inl e"
  then show "res = Inl e"
    unfolding assms(2,3,4) using invoke_last_raise [OF assms(1)] by blast
next
  fix e
  assume "res = Inl e"
  then show "(calls \<noteq> [] \<and> transport w (trace w') = Inl e) \<or>
              (m = M_get_time_step \<and>
               (\<exists>reply. transport w (trace w') = Inr reply \<and> float_of_str reply = None \<and>
                         e = ValueError reply))"
    unfolding assms(2,3,4) using assms(1)
    by (cases m)
      (auto simp: observe_defs method_defs act_defs osci_call_Some split: sum.splits option.splits)
next
  fix e
  show "fst (init ip_address w0) = Inl e \<longleftrightarrow>
              transport w0 (trace (snd (init ip_address w0))) = Inl e"
    by (rule init_failure)
qed

text \<open>
  C4, an instance: a timeout raised by the first write of \<open>configure_channel(1, 0.5, "DC")\<close>
  reaches the caller, and no further write is made.
\<close>

theorem exceptions_propagate_witness:
  "outcome (invoke example_float_repr example_float_of_str
       (M_configure_channel (PyInt 1) (PyFloat (1 / 2)) (PyStr ''DC''))) example_driver
     (failing_on (Write '':CHANnel1:DISPlay ON'') (VisaIOError ''timeout'') ''OK'') =
     Inl (VisaIOError ''timeout'') \<and>
   calls_of (invoke example_float_repr example_float_of_str
       (M_configure_channel (PyInt 1) (PyFloat (1 / 2)) (PyStr ''DC''))) example_driver
     (failing_on (Write '':CHANnel1:DISPlay ON'') (VisaIOError ''timeout'') ''OK'') =
     [Write '':CHANnel1:DISPlay ON'']"
proof -
  have calls: "calls_of (invoke example_float_repr example_float_of_str
       (M_configure_channel (PyInt 1) (PyFloat (1 / 2)) (PyStr ''DC''))) example_driver
     (failing_on (Write '':CHANnel1:DISPlay ON'') (VisaIOError ''timeout'') ''OK'') =
     [Write '':CHANnel1:DISPlay ON'']"
    by (simp add: observe_defs method_defs act_defs example_defs osci_call_def call_def str_defs)
  have c: "osci example_driver = Some example_resource"
    by (simp add: example_defs)
  have raised: "transport (failing_on (Write '':CHANnel1:DISPlay ON'') (VisaIOError ''timeout'') ''OK'')
      (trace (failing_on (Write '':CHANnel1:DISPlay ON'') (VisaIOError ''timeout'') ''OK'') @
       [Write '':CHANnel1:DISPlay ON'']) = Inl (VisaIOError ''timeout'')"
    by (simp add: failing_on_def)
  have "\<forall>p e. prefix p [Write '':CHANnel1:DISPlay ON''] \<and> p \<noteq> [] \<and>
          transport (failing_on (Write '':CHANnel1:DISPlay ON'') (VisaIOError ''timeout'') ''OK'')
            (trace (failing_on (Write '':CHANnel1:DISPlay ON'') (VisaIOError ''timeout'') ''OK'') @ p) =
            Inl e \<longrightarrow>
          outcome (invoke example_float_repr example_float_of_str
              (M_configure_channel (PyInt 1) (PyFloat (1 / 2)) (PyStr ''DC''))) example_driver
            (failing_on (Write '':CHANnel1:DISPlay ON'') (VisaIOError ''timeout'') ''OK'') = Inl e \<and>
          p = [Write '':CHANnel1:DISPlay ON'']"
    using exceptions_propagate [OF c refl refl refl, of example_float_repr example_float_of_str
        "M_configure_channel (PyInt 1) (PyFloat (1 / 2)) (PyStr ''DC'')"
        "failing_on (Write '':CHANnel1:DISPlay ON'') (VisaIOError ''timeout'') ''OK''"
        "replying ''RIGOL''" "''192.168.0.10''"]
    unfolding calls by blast
  then show ?thesis
    using raised calls by blast
qed

subsection \<open>C5: the protocol parameters and the driver's fields\<close>

text \<open>
  C5: the timeout and the two terminators are assigned once each, in the constructor (a
  construction that succeeds leaves timeout 2000 and both terminators the newline
  character, and even one that fails has assigned none of them twice); every method leaves
  the driver object as it was, whether it returns or raises, and assigns none of the three
  attributes.
\<close>

theorem protocol_parameters_fixed:
  "(\<forall>d. fst (init ip_address w0) = Inr d \<longrightarrow>
      (\<exists>r. osci d = Some r \<and> timeout r = Some 2000 \<and> read_termination r = Some [CHR 0x0A] \<and>
           write_termination r = Some [CHR 0x0A]) \<and>
      filter is_set_attribute (sent w0 (snd (init ip_address w0))) =
        [SetTimeout 2000, SetReadTermination [CHR 0x0A], SetWriteTermination [CHR 0x0A]]) \<and>
   prefix (filter is_set_attribute (sent w0 (snd (init ip_address w0))))
     [SetTimeout 2000, SetReadTermination [CHR 0x0A], SetWriteTermination [CHR 0x0A]] \<and>
   self_after (invoke float_repr float_of_str m) self w = self \<and>
   filter is_set_attribute (calls_of (invoke float_repr float_of_str m) self w) = []"
proof (intro conjI allI impI)
  fix d
  assume ok: "fst (init ip_address w0) = Inr d"
  show "\<exists>r. osci d = Some r \<and> timeout r = Some 2000 \<and> read_termination r = Some [CHR 0x0A] \<and>
           write_termination r = Some [CHR 0x0A]"
    using init_success(2) [OF ok] by (simp add: newline_def)
  show "filter is_set_attribute (sent w0 (snd (init ip_address w0))) =
        [SetTimeout 2000, SetReadTermination [CHR 0x0A], SetWriteTermination [CHR 0x0A]]"
    using init_success(1) [OF ok] by (simp add: newline_def)
next
  show "prefix (filter is_set_attribute (sent w0 (snd (init ip_address w0))))
     [SetTimeout 2000, SetReadTermination [CHR 0x0A], SetWriteTermination [CHR 0x0A]]"
    using filter_mono_prefix [OF init_calls_prefix, of is_set_attribute w0 ip_address]
    by (simp add: newline_def)
next
  show "self_after (invoke float_repr float_of_str m) self w = self"
    by (rule invoke_self_unchanged)
next
  show "filter is_set_attribute (calls_of (invoke float_repr float_of_str m) self w) = []"
  proof (cases "osci self")
    case None
    then show ?thesis
      by (cases m)
        (auto simp: observe_defs method_defs act_defs osci_call_None
              split: sum.splits option.splits)
  next
    case (Some r)
    have "prefix (filter is_set_attribute (calls_of (invoke float_repr float_of_str m) self w))
            (filter is_set_attribute (expected_calls float_repr m))"
      using invoke_calls_prefix [OF Some] by (rule filter_mono_prefix)
    moreover have "filter is_set_attribute (expected_calls float_repr m) = []"
      by (cases m) simp_all
    ultimately show ?thesis by simp
  qed
qed

text \<open>C5, an instance: a construction, then \<open>close\<close>.\<close>

theorem protocol_parameters_fixed_witness:
  "fst (init ''192.168.0.10'' (replying ''RIGOL'')) = Inr example_driver \<and>
   timeout example_resource = Some 2000 \<and>
   filter is_set_attribute (sent (replying ''RIGOL'') (snd (init ''192.168.0.10'' (replying ''RIGOL'')))) =
     [SetTimeout 2000, SetReadTermination [CHR 0x0A], SetWriteTermination [CHR 0x0A]] \<and>
   self_after (invoke example_float_repr example_float_of_str M_close) example_driver
     (replying ''OK'') = example_driver"
  using protocol_parameters_fixed [of "''192.168.0.10''" "replying ''RIGOL''" example_float_repr
      example_float_of_str M_close example_driver "replying ''OK''"]
  by (simp add: example_init) (simp add: example_defs)

subsection \<open>C8: the identification query of the constructor\<close>



subsection \<open>C9: what the query methods do with the reply\<close>

text \<open>
  C9: \<open>get_trigger_status\<close> returns the reply without its leading and trailing whitespace
  (the reply is the result with whitespace on both sides, and the result neither begins
  nor ends with whitespace), whereas \<open>get_memory_depth\<close> and \<open>acquire_waveform\<close> return
  the reply as it is.
\<close>

theorem reply_post_processing:
  assumes "osci self = Some r"
  shows "(\<forall>reply. transport w (trace w @ [Query '':TRIG:STAT?'']) = Inr reply \<longrightarrow>
            outcome get_trigger_status self w = Inr (py_strip reply) \<and>
            (\<exists>a b. reply = a @ py_strip reply @ b \<and> (\<forall>c\<in>set (a @ b). py_isspace c)) \<and>
            (py_strip reply \<noteq> [] \<longrightarrow>
               \<not> py_isspace (hd (py_strip reply)) \<and> \<not> py_isspace (last (py_strip reply)))) \<and>
         (\<forall>reply. transport w (trace w @ [Query '':ACQuire:MDEPth?'']) = Inr reply \<longrightarrow>
            outcome get_memory_depth self w = Inr reply) \<and>
         (\<forall>v. outcome (acquire_waveform float_repr channel mode points) self w = Inr v \<longrightarrow>
            transport w (trace (world_after (acquire_waveform float_repr channel mode points) self w)) =
              Inr v)"
proof (intro conjI allI impI)
  fix reply
  assume "transport w (trace w @ [Query '':TRIG:STAT?'']) = Inr reply"
  then show "outcome get_trigger_status self w = Inr (py_strip reply)"
    using assms by (simp add: observe_defs method_defs act_defs osci_call_Some)
next
  fix reply
  show "\<exists>a b. reply = a @ py_strip reply @ b \<and> (\<forall>c\<in>set (a @ b). py_isspace c)"
    by (rule py_strip_decomposition)
next
  fix reply
  assume "py_strip reply \<noteq> []"
  then show "\<not> py_isspace (hd (py_strip reply))" and "\<not> py_isspace (last (py_strip reply))"
    using py_strip_ends by blast+
next
  fix reply
  assume "transport w (trace w @ [Query '':ACQuire:MDEPth?'']) = Inr reply"
  then show "outcome get_memory_depth self w = Inr reply"
    using assms by (simp add: observe_defs method_defs act_defs osci_call_Some)
next
  fix v
  assume "outcome (acquire_waveform float_repr channel mode points) self w = Inr v"
  then show "transport w (trace (world_after (acquire_waveform float_repr channel mode points) self w)) =
              Inr v"
    using assms
    by (auto simp: observe_defs method_defs act_defs osci_call_Some split: sum.splits)
qed

text \<open>
  C9, an instance where the two differ: on the reply \<open>TD\<close> between spaces,
  \<open>get_trigger_status\<close> returns \<open>TD\<close> and \<open>get_memory_depth\<close> the reply itself.
\<close>

theorem reply_post_processing_witness:
  "outcome get_trigger_status example_driver (replying '' TD  '') = Inr ''TD'' \<and>
   outcome get_memory_depth example_driver (replying '' TD  '') = Inr '' TD  ''"
  using reply_post_processing [of example_driver example_resource "replying '' TD  ''"
      example_float_repr "PyInt 1" "PyStr ''NORM''" "PyInt 600"]
  by (simp add: example_defs py_strip_def py_isspace_def)

end
